theory Spec2Isabelle
  imports Complex_Main
begin

section \<open>Python values and errors\<close>

text \<open>
  The exceptions that the module \<^verbatim>\<open>manifold_factory\<close> can raise.  Every \<^verbatim>\<open>raise\<close> of the
  source and every failure of a library call it makes is a value \<open>Inl e\<close> of a result
  type \<open>error + 'a\<close>.  \<open>NameError\<close> and \<open>AttributeError\<close> carry the name that was looked up.
\<close>

datatype error =
    NotImplementedError
  | NameError string
  | AttributeError string
  | TypeError
  | ValueError
  | OverflowError

text \<open>
  Sequencing of two computations that may raise: the second one runs only when the
  first one returned.
\<close>

definition and_then :: "error + 'a \<Rightarrow> ('a \<Rightarrow> error + 'b) \<Rightarrow> error + 'b" where
  "and_then r f = (case r of Inl e \<Rightarrow> Inl e | Inr v \<Rightarrow> f v)"

text \<open>
  The values that the module binds to names and to instance attributes: \<^verbatim>\<open>None\<close>,
  booleans, integers, strings, and objects whose content plays no role here (modules,
  functions, classes).
\<close>

datatype pyval = PyNone | PyBool bool | PyInt int | PyStr string | PyObject

text \<open>
  Array entries are modelled as exact reals: the properties of \<^verbatim>\<open>proj\<close> are stated in
  exact arithmetic.  The constructor of the Stiefel manifold computes with Python floats,
  which are IEEE doubles; its arithmetic is modelled with the rounding written out.

  A double is a real number, or one of the infinities, or \<^verbatim>\<open>nan\<close>.
\<close>

datatype npfloat = Finite real | PosInf | NegInf | NaN

text \<open>
  \<open>round_even\<close> is the nearest integer, a tie going to the even one.  \<open>float64 x\<close> is the
  double nearest to \<open>x\<close> when the exponent is not bounded above: 53 significant bits, the
  exponent not below that of the subnormal numbers.  \<open>float64_result\<close> is the result of
  a float operation whose exact value is \<open>x\<close>: a rounded value of magnitude \<open>2\<^sup>1\<^sup>0\<^sup>2\<^sup>4\<close> or
  more is an infinity.
\<close>

definition round_even :: "real \<Rightarrow> int" where
  "round_even y =
     (let f = \<lfloor>y\<rfloor>; r = y - of_int f
      in if r < 1 / 2 then f else if 1 / 2 < r then f + 1 else if even f then f else f + 1)"

definition float64 :: "real \<Rightarrow> real" where
  "float64 x =
     (if x = 0 then 0
      else let e = max \<lfloor>log 2 \<bar>x\<bar>\<rfloor> (- 1022) - 52
           in of_int (round_even (x / 2 powr of_int e)) * 2 powr of_int e)"

definition float64_result :: "real \<Rightarrow> npfloat" where
  "float64_result x =
     (let y = float64 x
      in if 2 ^ 1024 \<le> \<bar>y\<bar> then (if 0 < x then PosInf else NegInf) else Finite y)"

text \<open>
  The conversion of a Python integer to a float, which Python makes when an integer
  meets a float in \<^verbatim>\<open>*\<close> or \<^verbatim>\<open>-\<close>: the nearest double, and \<^verbatim>\<open>OverflowError\<close> when that
  would be beyond the largest double \<open>2\<^sup>1\<^sup>0\<^sup>2\<^sup>4 - 2\<^sup>9\<^sup>7\<^sup>1\<close>, that is from \<open>2\<^sup>1\<^sup>0\<^sup>2\<^sup>4 - 2\<^sup>9\<^sup>7\<^sup>0\<close> on.
\<close>

definition py_float :: "int \<Rightarrow> error + real" where
  "py_float k =
     (if 2 ^ 1024 - 2 ^ 970 \<le> \<bar>k\<bar> then Inl OverflowError else Inr (float64 (of_int k)))"

text \<open>
  \<^verbatim>\<open>np.sqrt(k)\<close> of a Python integer.  numpy first makes the integer a 64-bit integer,
  signed or unsigned; an integer outside both ranges becomes an object, for which
  \<^verbatim>\<open>sqrt\<close> raises \<^verbatim>\<open>TypeError\<close>.  A negative argument gives \<^verbatim>\<open>nan\<close> (numpy warns, it does
  not raise).  Otherwise the integer is converted to a double and the result is the
  double nearest to the square root.
\<close>

definition np_sqrt :: "int \<Rightarrow> error + npfloat" where
  "np_sqrt k =
     (if k < - (2 ^ 63) \<or> 2 ^ 64 \<le> k then Inl TypeError
      else if k < 0 then Inr NaN
      else Inr (Finite (float64 (sqrt (float64 (of_int k))))))"

section \<open>Two-dimensional arrays\<close>

text \<open>
  A two-dimensional numpy array: its shape and its rows.  An array is well formed when
  the rows agree with the shape.  \<open>mk m k f\<close> is the \<open>m\<close> by \<open>k\<close> array with entry
  \<open>f i j\<close> at row \<open>i\<close>, column \<open>j\<close>; \<open>array\<close> is \<^verbatim>\<open>np.array\<close> of a list of rows.
\<close>

record ndarray =
  nrows :: nat
  ncols :: nat
  rows :: "real list list"

definition wf :: "ndarray \<Rightarrow> bool" where
  "wf A \<longleftrightarrow> length (rows A) = nrows A \<and> list_all (\<lambda>r. length r = ncols A) (rows A)"

definition mk :: "nat \<Rightarrow> nat \<Rightarrow> (nat \<Rightarrow> nat \<Rightarrow> real) \<Rightarrow> ndarray" where
  "mk m k f = \<lparr> nrows = m, ncols = k, rows = map (\<lambda>i. map (f i) [0..<k]) [0..<m] \<rparr>"

definition entry :: "ndarray \<Rightarrow> nat \<Rightarrow> nat \<Rightarrow> real" where
  "entry A i j = rows A ! i ! j"

definition array :: "real list list \<Rightarrow> ndarray" where
  "array rs = \<lparr> nrows = length rs, ncols = (case rs of [] \<Rightarrow> 0 | r # _ \<Rightarrow> length r), rows = rs \<rparr>"

text \<open>\<^verbatim>\<open>A.T\<close>, \<^verbatim>\<open>np.eye(k)\<close>, \<^verbatim>\<open>np.zeros((m,k))\<close> and the product \<^verbatim>\<open>c * A\<close> with a scalar.\<close>

definition np_T :: "ndarray \<Rightarrow> ndarray" where
  "np_T A = mk (ncols A) (nrows A) (\<lambda>i j. entry A j i)"

definition np_eye :: "nat \<Rightarrow> ndarray" where
  "np_eye k = mk k k (\<lambda>i j. if i = j then 1 else 0)"

definition np_zeros :: "nat \<Rightarrow> nat \<Rightarrow> ndarray" where
  "np_zeros m k = mk m k (\<lambda>i j. 0)"

definition scalar_times :: "real \<Rightarrow> ndarray \<Rightarrow> ndarray" where
  "scalar_times c A = mk (nrows A) (ncols A) (\<lambda>i j. c * entry A i j)"

text \<open>
  \<^verbatim>\<open>np.dot(A, B)\<close> of two-dimensional arrays is the matrix product; it raises
  \<^verbatim>\<open>ValueError\<close> when the inner dimensions differ.
\<close>

definition np_dot :: "ndarray \<Rightarrow> ndarray \<Rightarrow> error + ndarray" where
  "np_dot A B =
     (if ncols A = nrows B
      then Inr (mk (nrows A) (ncols B)
                  (\<lambda>i j. sum_list (map (\<lambda>k. entry A i k * entry B k j) [0..<ncols A])))
      else Inl ValueError)"

text \<open>
  The operators \<^verbatim>\<open>+\<close>, \<^verbatim>\<open>-\<close> and \<^verbatim>\<open>*\<close> on arrays work entry by entry, after
  broadcasting: two dimensions are compatible when they are equal or one of them is 1,
  and a dimension of size 1 is stretched.  Incompatible shapes raise \<^verbatim>\<open>ValueError\<close>.
\<close>

definition broadcast_dim :: "nat \<Rightarrow> nat \<Rightarrow> nat option" where
  "broadcast_dim a b =
     (if a = b then Some a else if a = 1 then Some b else if b = 1 then Some a else None)"

definition stretch :: "ndarray \<Rightarrow> nat \<Rightarrow> nat \<Rightarrow> real" where
  "stretch A i j = entry A (if nrows A = 1 then 0 else i) (if ncols A = 1 then 0 else j)"

definition elementwise :: "(real \<Rightarrow> real \<Rightarrow> real) \<Rightarrow> ndarray \<Rightarrow> ndarray \<Rightarrow> error + ndarray" where
  "elementwise f A B =
     (case (broadcast_dim (nrows A) (nrows B), broadcast_dim (ncols A) (ncols B)) of
        (Some m, Some k) \<Rightarrow> Inr (mk m k (\<lambda>i j. f (stretch A i j) (stretch B i j)))
      | _ \<Rightarrow> Inl ValueError)"

text \<open>
  \<^verbatim>\<open>np.diag\<close> of a two-dimensional array is the one-dimensional array of its diagonal;
  \<^verbatim>\<open>np.diag\<close> of a one-dimensional array is the square array with it on the diagonal.
\<close>

definition np_diagonal :: "ndarray \<Rightarrow> real list" where
  "np_diagonal R = map (\<lambda>i. entry R i i) [0..<min (nrows R) (ncols R)]"

definition np_diag :: "real list \<Rightarrow> ndarray" where
  "np_diag v = mk (length v) (length v) (\<lambda>i j. if i = j then v ! i else 0)"

text \<open>
  \<^verbatim>\<open>np.allclose(A, B)\<close> with its default tolerances: every entry satisfies
  \<open>\<bar>a - b\<bar> \<le> atol + rtol \<cdot> \<bar>b\<bar>\<close> with \<open>atol = 1e-8\<close> and \<open>rtol = 1e-5\<close>.
\<close>

definition np_allclose :: "ndarray \<Rightarrow> ndarray \<Rightarrow> error + bool" where
  "np_allclose A B =
     (case (broadcast_dim (nrows A) (nrows B), broadcast_dim (ncols A) (ncols B)) of
        (Some m, Some k) \<Rightarrow>
          Inr (list_all (\<lambda>i. list_all (\<lambda>j.
                 \<bar>stretch A i j - stretch B i j\<bar> \<le> 1 / 10 ^ 8 + 1 / 10 ^ 5 * \<bar>stretch B i j\<bar>)
                 [0..<k]) [0..<m])
      | _ \<Rightarrow> Inl ValueError)"

text \<open>
  \<^verbatim>\<open>np.eye(v)\<close> for a Python value \<open>v\<close>: an integer (a boolean counts as 0 or 1) that is
  not negative gives the identity; anything else raises.
\<close>

definition np_eye_py :: "pyval \<Rightarrow> error + ndarray" where
  "np_eye_py v =
     (case v of
        PyInt k \<Rightarrow> if k < 0 then Inl ValueError else Inr (np_eye (nat k))
      | PyBool b \<Rightarrow> Inr (np_eye (if b then 1 else 0))
      | _ \<Rightarrow> Inl TypeError)"

section \<open>The module \<^verbatim>\<open>manifold_factory\<close>\<close>

text \<open>
  The names bound at module level, in the order of the source: \<^verbatim>\<open>__author__\<close>, the
  imports \<^verbatim>\<open>np\<close>, \<^verbatim>\<open>npr\<close> and \<^verbatim>\<open>sign\<close>, and the three classes.  A name used in a
  method that is neither a parameter nor assigned in the method is looked up here (and
  then among the built-in names, none of which is a single letter); a name that is not
  found raises \<^verbatim>\<open>NameError\<close>.
\<close>

definition module_globals :: "(string \<times> pyval) list" where
  "module_globals =
     [(''__author__'', PyStr ''Josh Fass''),
      (''np'', PyObject), (''npr'', PyObject), (''sign'', PyObject),
      (''Manifold'', PyObject), (''StiefelManifold'', PyObject),
      (''GrassmannManifold'', PyObject)]"

definition load_global :: "string \<Rightarrow> error + pyval" where
  "load_global name =
     (case map_of module_globals name of None \<Rightarrow> Inl (NameError name) | Some v \<Rightarrow> Inr v)"

subsection \<open>The base class \<^verbatim>\<open>Manifold\<close> and the placeholder \<^verbatim>\<open>GrassmannManifold\<close>\<close>

text \<open>
  An instance is the dictionary of its attributes.  \<^verbatim>\<open>Manifold.__init__\<close> sets
  \<^verbatim>\<open>dim = None\<close>; \<^verbatim>\<open>GrassmannManifold.__init__\<close> replaces it, does not call it, and sets
  only \<^verbatim>\<open>implemented_ = False\<close>.  \<^verbatim>\<open>GrassmannManifold\<close> defines no other method, so its
  \<^verbatim>\<open>proj\<close>, \<^verbatim>\<open>random_vec\<close> and \<^verbatim>\<open>point_on_manifold\<close> are those of \<^verbatim>\<open>Manifold\<close>.
  Reading an attribute looks in the instance first and in the class second.
\<close>

type_synonym pyinstance = "(string \<times> pyval) list"

definition Manifold_init :: pyinstance where
  "Manifold_init = [(''dim'', PyNone)]"

definition GrassmannManifold_init :: pyinstance where
  "GrassmannManifold_init = [(''implemented_'', PyBool False)]"

definition Manifold_methods :: "string list" where
  "Manifold_methods = [''__init__'', ''proj'', ''random_vec'', ''point_on_manifold'']"

definition getattr :: "pyinstance \<Rightarrow> string \<Rightarrow> error + pyval" where
  "getattr self name =
     (case map_of self name of
        Some v \<Rightarrow> Inr v
      | None \<Rightarrow> if name \<in> set Manifold_methods then Inr PyObject
                else Inl (AttributeError name))"

definition Manifold_proj :: "pyinstance \<Rightarrow> 'a \<Rightarrow> error + ndarray" where
  "Manifold_proj self X = Inl NotImplementedError"

definition Manifold_point_on_manifold :: "pyinstance \<Rightarrow> 'a \<Rightarrow> error + bool" where
  "Manifold_point_on_manifold self X = Inl NotImplementedError"

text \<open>
  \<^verbatim>\<open>npr.randn(d)\<close> draws \<open>d\<close> numbers; the draw is a parameter \<open>sample\<close>, which gives
  the \<open>i\<close>-th number.  A negative \<open>d\<close> raises \<^verbatim>\<open>ValueError\<close>, a \<open>d\<close> that is no integer
  (\<^verbatim>\<open>None\<close> among them) raises \<^verbatim>\<open>TypeError\<close>.
\<close>

definition npr_randn :: "(nat \<Rightarrow> real) \<Rightarrow> pyval \<Rightarrow> error + real list" where
  "npr_randn sample d =
     (case d of
        PyInt k \<Rightarrow> if k < 0 then Inl ValueError else Inr (map sample [0..<nat k])
      | PyBool b \<Rightarrow> Inr (map sample [0..<(if b then 1 else 0)])
      | _ \<Rightarrow> Inl TypeError)"

text \<open>
  \<^verbatim>\<open>return self.proj(npr.randn(self.dim))\<close>: the argument is evaluated before the call,
  so \<^verbatim>\<open>self.dim\<close> is read first.
\<close>

definition Manifold_random_vec :: "(nat \<Rightarrow> real) \<Rightarrow> pyinstance \<Rightarrow> error + ndarray" where
  "Manifold_random_vec sample self =
     and_then (getattr self ''dim'') (\<lambda>d.
     and_then (npr_randn sample d) (\<lambda>v.
       Manifold_proj self v))"

subsection \<open>The class \<^verbatim>\<open>StiefelManifold\<close>\<close>

text \<open>
  \<^verbatim>\<open>StiefelManifold.__init__(self, n, p)\<close> stores four attributes and checks nothing.
  \<^verbatim>\<open>n\<close> and \<^verbatim>\<open>p\<close> are Python integers, so \<^verbatim>\<open>n*p\<close> and \<^verbatim>\<open>p*(p+1)\<close> are exact.  In
  \<^verbatim>\<open>n*p - 0.5*(p*(p+1))\<close> the product with \<^verbatim>\<open>0.5\<close> converts \<^verbatim>\<open>p*(p+1)\<close> to a float and
  halves it (the half of a double that came from an integer is finite), and the
  subtraction converts \<^verbatim>\<open>n*p\<close> to a float and rounds the difference.  Either conversion
  can raise \<^verbatim>\<open>OverflowError\<close>, and \<^verbatim>\<open>np.sqrt(p)\<close> can raise \<^verbatim>\<open>TypeError\<close>; then no object
  is constructed.
\<close>

record StiefelManifold =
  self_n :: int
  self_p :: int
  self_dim :: npfloat
  self_typical_distance :: npfloat

definition StiefelManifold_init :: "int \<Rightarrow> int \<Rightarrow> error + StiefelManifold" where
  "StiefelManifold_init n p =
     and_then (py_float (p * (p + 1))) (\<lambda>b.
     let c = float64 (0.5 * b) in
     and_then (py_float (n * p)) (\<lambda>a.
     and_then (np_sqrt p) (\<lambda>d.
       Inr \<lparr> self_n = n, self_p = p, self_dim = float64_result (a - c),
             self_typical_distance = d \<rparr>)))"

text \<open>
  \<^verbatim>\<open>inner\<close> returns \<^verbatim>\<open>np.dot(d1,d2)\<close>, which for two-dimensional arrays is the matrix
  product.  \<^verbatim>\<open>norm\<close> returns \<^verbatim>\<open>np.norm(d)\<close>: the module \<^verbatim>\<open>numpy\<close> has no attribute
  \<^verbatim>\<open>norm\<close> (the matrix norm is \<^verbatim>\<open>numpy.linalg.norm\<close>), so reading \<^verbatim>\<open>np.norm\<close> raises
  \<^verbatim>\<open>AttributeError\<close> before \<^verbatim>\<open>d\<close> is looked at.  Neither method uses \<^verbatim>\<open>self\<close>.
\<close>

definition inner :: "ndarray \<Rightarrow> ndarray \<Rightarrow> error + ndarray" where
  "inner d1 d2 = np_dot d1 d2"

definition norm_stiefel :: "ndarray \<Rightarrow> error + real" where
  "norm_stiefel d = Inl (AttributeError ''norm'')"

text \<open>
  \<^verbatim>\<open>proj(self, X, U)\<close>, statement by statement.  Python evaluates the operands of each
  expression from left to right.  \<^verbatim>\<open>len(XXT)\<close> is the number of rows of \<^verbatim>\<open>XXT\<close>.
  \<^verbatim>\<open>tangent\<close> and \<^verbatim>\<open>egrad2rgrad\<close> return \<^verbatim>\<open>self.proj(X,U)\<close>.
\<close>

definition proj :: "ndarray \<Rightarrow> ndarray \<Rightarrow> error + ndarray" where
  "proj X U =
     and_then (np_dot (np_T X) U) (\<lambda>XTU.
     and_then (np_dot (np_T U) X) (\<lambda>UTX.
     and_then (elementwise (-) XTU UTX) (\<lambda>D.
     let skew_XTU = scalar_times 0.5 D in
     and_then (np_dot X (np_T X)) (\<lambda>XXT.
     let I = np_eye (nrows XXT) in
     and_then (np_dot X skew_XTU) (\<lambda>L.
     and_then (elementwise (-) I XXT) (\<lambda>P.
     and_then (np_dot P U) (\<lambda>R.
       elementwise (+) L R)))))))"

definition tangent :: "ndarray \<Rightarrow> ndarray \<Rightarrow> error + ndarray" where
  "tangent X U = proj X U"

definition egrad2rgrad :: "ndarray \<Rightarrow> ndarray \<Rightarrow> error + ndarray" where
  "egrad2rgrad X U = proj X U"

text \<open>
  Modelled from the spec: \<^verbatim>\<open>sign\<close> is imported from the module \<^verbatim>\<open>utils\<close>, which is not
  among the sources.  The specification describes it as a pure function that
  "returns -1/0/+1 per input sign", applied entry by entry to an array.
\<close>

definition sign :: "real \<Rightarrow> real" where
  "sign x = (if x < 0 then - 1 else if x = 0 then 0 else 1)"

text \<open>
  The expression \<^verbatim>\<open>sign(sign(d)+0.5)\<close> of \<^verbatim>\<open>retraction\<close>, where \<^verbatim>\<open>d = np.diag(R)\<close> is
  the one-dimensional array of the diagonal entries of \<^verbatim>\<open>R\<close>: the inner \<^verbatim>\<open>sign\<close>, the
  addition of the scalar and the outer \<^verbatim>\<open>sign\<close> all work entry by entry.
\<close>

definition sign_correction :: "real list \<Rightarrow> real list" where
  "sign_correction d = map sign (map (\<lambda>s. s + 0.5) (map sign d))"

text \<open>
  \<^verbatim>\<open>retraction(self, X, U, t)\<close>.  \<^verbatim>\<open>np.linalg.qr\<close> is a routine of the numerical library
  and is a parameter here: it takes \<^verbatim>\<open>Y\<close> and returns the factors \<^verbatim>\<open>(Q, R)\<close>.  The last
  line multiplies with the operator \<^verbatim>\<open>*\<close>, which on arrays is the entry by entry
  product with broadcasting, not the matrix product.
\<close>

type_synonym qr_routine = "ndarray \<Rightarrow> error + ndarray \<times> ndarray"

definition retraction :: "qr_routine \<Rightarrow> ndarray \<Rightarrow> ndarray \<Rightarrow> real \<Rightarrow> error + ndarray" where
  "retraction qr X U t =
     and_then (elementwise (+) X (scalar_times t U)) (\<lambda>Y.
     and_then (qr Y) (\<lambda>(Q, R).
       elementwise (*) Q (np_diag (sign_correction (np_diagonal R)))))"

text \<open>
  \<^verbatim>\<open>point_on_manifold(self, X)\<close>.  The shape is compared first and \<^verbatim>\<open>and\<close> stops at a
  false operand.  Otherwise the arguments of \<^verbatim>\<open>np.allclose\<close> are evaluated in order:
  \<^verbatim>\<open>X.T.dot(X)\<close>, then \<^verbatim>\<open>np.eye(p)\<close>, where \<^verbatim>\<open>p\<close> is a bare name (not \<^verbatim>\<open>self.p\<close>) and
  is therefore looked up among the names of the module.
\<close>

definition point_on_manifold :: "StiefelManifold \<Rightarrow> ndarray \<Rightarrow> error + bool" where
  "point_on_manifold self X =
     (if (int (nrows X), int (ncols X)) = (self_n self, self_p self)
      then and_then (np_dot (np_T X) X) (\<lambda>XTX.
           and_then (load_global ''p'') (\<lambda>pv.
           and_then (np_eye_py pv) (\<lambda>I.
           and_then (np_allclose XTX I) (\<lambda>close.
             if close then Inr True else Inr False))))
      else Inr False)"

section \<open>Concrete inputs\<close>

text \<open>
  The point \<open>[[1,0],[0,1],[0,0],[0,0]]\<close> of the 4 by 2 manifold, a direction of the same
  shape, and the 2 by 2 orthonormal matrix that exchanges the two coordinates.
\<close>

definition X42 :: ndarray where
  "X42 = array [[1, 0], [0, 1], [0, 0], [0, 0]]"

definition U42 :: ndarray where
  "U42 = array [[1, 2], [3, 4], [5, 6], [7, 8]]"

definition X22 :: ndarray where
  "X22 = array [[0, 1], [1, 0]]"

definition U22 :: ndarray where
  "U22 = array [[1, 2], [3, 4]]"

text \<open>
  A QR routine that returns the given factors whatever its argument: it stands for
  \<^verbatim>\<open>np.linalg.qr\<close> at one input, where the factors are those of that input.  For
  \<open>Y = X42\<close> the Householder factorisation returns \<open>Q = Y\<close> and \<open>R = I\<close>; for \<open>Y = X22\<close>
  it returns \<open>Q = -Y\<close> and \<open>R = -I\<close>.
\<close>

definition qr_returning :: "ndarray \<Rightarrow> ndarray \<Rightarrow> qr_routine" where
  "qr_returning Q R Y = Inr (Q, R)"

definition Q42 :: ndarray where
  "Q42 = array [[1, 0], [0, 1], [0, 0], [0, 0]]"

definition R42 :: ndarray where
  "R42 = array [[1, 0], [0, 1]]"

definition Q22 :: ndarray where
  "Q22 = array [[0, - 1], [- 1, 0]]"

definition R22 :: ndarray where
  "R22 = array [[- 1, 0], [0, - 1]]"

definition zero_draws :: "nat \<Rightarrow> real" where
  "zero_draws i = 0"

section \<open>Entries of the tangent projection\<close>

text \<open>
  The entries of \<open>X\<^sup>T U\<close>, of its skew-symmetric part as \<^verbatim>\<open>proj\<close> computes it, and of the
  projection \<open>X skew + (U - X (X\<^sup>T U))\<close>, for \<open>n\<close> by \<open>p\<close> arrays given by their entries.
\<close>

definition gram :: "nat \<Rightarrow> (nat \<Rightarrow> nat \<Rightarrow> real) \<Rightarrow> (nat \<Rightarrow> nat \<Rightarrow> real) \<Rightarrow> nat \<Rightarrow> nat \<Rightarrow> real" where
  "gram n x u a b = (\<Sum>i<n. x i a * u i b)"

definition skew_part :: "nat \<Rightarrow> (nat \<Rightarrow> nat \<Rightarrow> real) \<Rightarrow> (nat \<Rightarrow> nat \<Rightarrow> real) \<Rightarrow> nat \<Rightarrow> nat \<Rightarrow> real" where
  "skew_part n x u a b = 0.5 * (gram n x u a b - gram n u x a b)"

definition tangent_part :: "nat \<Rightarrow> nat \<Rightarrow> (nat \<Rightarrow> nat \<Rightarrow> real) \<Rightarrow> (nat \<Rightarrow> nat \<Rightarrow> real) \<Rightarrow> nat \<Rightarrow> nat \<Rightarrow> real" where
  "tangent_part n p x u i b =
     (\<Sum>c<p. x i c * skew_part n x u c b) + (u i b - (\<Sum>c<p. x i c * gram n x u c b))"

section \<open>Arrays given by their entries\<close>

lemma nrows_mk [simp]: "nrows (mk m k f) = m"
  by (simp add: mk_def)

lemma ncols_mk [simp]: "ncols (mk m k f) = k"
  by (simp add: mk_def)

lemma entry_mk [simp]: "i < m \<Longrightarrow> j < k \<Longrightarrow> entry (mk m k f) i j = f i j"
  by (simp add: mk_def entry_def)

lemma wf_mk [simp]: "wf (mk m k f)"
  by (simp add: wf_def mk_def list_all_iff)

lemma mk_cong:
  "m = m' \<Longrightarrow> k = k' \<Longrightarrow> (\<And>i j. i < m' \<Longrightarrow> j < k' \<Longrightarrow> f i j = g i j) \<Longrightarrow> mk m k f = mk m' k' g"
  by (simp add: mk_def)

lemma mk_eq_iff: "mk m k f = mk m k g \<longleftrightarrow> (\<forall>i<m. \<forall>j<k. f i j = g i j)"
proof
  assume eq: "mk m k f = mk m k g"
  show "\<forall>i<m. \<forall>j<k. f i j = g i j"
  proof (intro allI impI)
    fix i j assume "i < m" "j < k"
    then have "entry (mk m k f) i j = f i j" "entry (mk m k g) i j = g i j" by simp_all
    with eq show "f i j = g i j" by simp
  qed
next
  assume "\<forall>i<m. \<forall>j<k. f i j = g i j"
  then show "mk m k f = mk m k g" by (intro mk_cong) simp_all
qed

lemma mk_entry: "wf A \<Longrightarrow> mk (nrows A) (ncols A) (entry A) = A"
proof -
  assume w: "wf A"
  have "map (\<lambda>i. map (entry A i) [0..<ncols A]) [0..<nrows A] = rows A"
  proof (rule nth_equalityI)
    show "length (map (\<lambda>i. map (entry A i) [0..<ncols A]) [0..<nrows A]) = length (rows A)"
      using w by (simp add: wf_def)
  next
    fix i assume "i < length (map (\<lambda>i. map (entry A i) [0..<ncols A]) [0..<nrows A])"
    then have i: "i < nrows A" by simp
    then have len: "length (rows A ! i) = ncols A"
      using w by (simp add: wf_def list_all_length)
    have "map (entry A i) [0..<ncols A] = rows A ! i"
      by (rule nth_equalityI) (simp_all add: len entry_def)
    then show "map (\<lambda>i. map (entry A i) [0..<ncols A]) [0..<nrows A] ! i = rows A ! i"
      using i by simp
  qed
  then show ?thesis by (simp add: mk_def)
qed

lemma sum_list_upt: "sum_list (map f [0..<m]) = (\<Sum>k<m. f k)"
  by (simp add: interv_sum_list_conv_sum_set_nat atLeast0LessThan)


lemma stretch_entry: "i < nrows A \<Longrightarrow> j < ncols A \<Longrightarrow> stretch A i j = entry A i j"
  by (auto simp add: stretch_def)

lemma np_T_mk: "np_T (mk m k a) = mk k m (\<lambda>i j. a j i)"
  by (simp add: np_T_def cong: mk_cong)

lemma np_dot_mk: "np_dot (mk m k a) (mk k l b) = Inr (mk m l (\<lambda>i j. \<Sum>c<k. a i c * b c j))"
  by (auto simp add: np_dot_def sum_list_upt intro!: mk_cong sum.cong)

lemma elementwise_mk:
  "elementwise f (mk m k a) (mk m k b) = Inr (mk m k (\<lambda>i j. f (a i j) (b i j)))"
  by (simp add: elementwise_def broadcast_dim_def stretch_entry cong: mk_cong)

lemma scalar_times_mk: "scalar_times c (mk m k a) = mk m k (\<lambda>i j. c * a i j)"
  by (simp add: scalar_times_def cong: mk_cong)

lemma proj_mk:
  "proj (mk n p x) (mk n p u) =
     Inr (mk n p (\<lambda>i b.
       (\<Sum>c<p. x i c * (0.5 * ((\<Sum>k<n. x k c * u k b) - (\<Sum>k<n. u k c * x k b))))
       + (\<Sum>k<n. ((if i = k then 1 else 0) - (\<Sum>c<p. x i c * x k c)) * u k b)))"
  by (simp add: proj_def np_T_mk np_dot_mk elementwise_mk scalar_times_mk np_eye_def
        and_then_def Let_def)


lemma orthonormal_entries:
  assumes "np_dot (np_T (mk n p x)) (mk n p x) = Inr (np_eye p)" and "a < p" and "c < p"
  shows "(\<Sum>i<n. x i a * x i c) = (if a = c then 1 else 0)"
  using assms by (simp add: np_T_mk np_dot_mk np_eye_def mk_eq_iff)

lemma gram_contract:
  fixes x :: "nat \<Rightarrow> nat \<Rightarrow> real"
  assumes orth: "\<And>a c. a < p \<Longrightarrow> c < p \<Longrightarrow> (\<Sum>i<n. x i a * x i c) = (if a = c then 1 else 0)"
    and a: "a < p"
  shows "(\<Sum>i<n. x i a * (\<Sum>c<p. x i c * s c)) = s a"
proof -
  have "(\<Sum>i<n. x i a * (\<Sum>c<p. x i c * s c)) = (\<Sum>i<n. \<Sum>c<p. (x i a * x i c) * s c)"
    by (simp add: sum_distrib_left mult.assoc)
  also have "\<dots> = (\<Sum>c<p. \<Sum>i<n. (x i a * x i c) * s c)"
    by (rule sum.swap)
  also have "\<dots> = (\<Sum>c<p. (\<Sum>i<n. x i a * x i c) * s c)"
    by (simp add: sum_distrib_right)
  also have "\<dots> = (\<Sum>c<p. (if a = c then 1 else 0) * s c)"
    by (rule sum.cong) (simp_all add: orth a)
  also have "\<dots> = (\<Sum>c<p. if a = c then s c else 0)"
    by (rule sum.cong) simp_all
  also have "\<dots> = s a"
    using a by (simp add: sum.delta')
  finally show ?thesis .
qed

lemma complement_apply:
  fixes x :: "nat \<Rightarrow> nat \<Rightarrow> real"
  assumes i: "i < n"
  shows "(\<Sum>k<n. ((if i = k then 1 else 0) - (\<Sum>c<p. x i c * x k c)) * w k)
         = w i - (\<Sum>c<p. x i c * (\<Sum>k<n. x k c * w k))"
proof -
  have "(\<Sum>k<n. ((if i = k then 1 else 0) - (\<Sum>c<p. x i c * x k c)) * w k)
        = (\<Sum>k<n. (if i = k then w k else 0)) - (\<Sum>k<n. (\<Sum>c<p. x i c * x k c) * w k)"
    by (simp add: left_diff_distrib sum_subtractf if_distrib [of "\<lambda>v. v * _"] cong: if_cong)
  also have "(\<Sum>k<n. (if i = k then w k else 0)) = w i"
    using i by (simp add: sum.delta')
  also have "(\<Sum>k<n. (\<Sum>c<p. x i c * x k c) * w k) = (\<Sum>k<n. \<Sum>c<p. x i c * (x k c * w k))"
    by (simp add: sum_distrib_right mult.assoc)
  also have "\<dots> = (\<Sum>c<p. \<Sum>k<n. x i c * (x k c * w k))"
    by (rule sum.swap)
  also have "\<dots> = (\<Sum>c<p. x i c * (\<Sum>k<n. x k c * w k))"
    by (simp add: sum_distrib_left)
  finally show ?thesis .
qed


lemma gram_commute: "gram n x u a b = gram n u x b a"
  by (simp add: gram_def mult.commute)

lemma skew_part_anti: "skew_part n x u a b = - skew_part n x u b a"
  by (simp add: skew_part_def gram_commute [of n u x] field_simps)

lemma proj_mk_tangent: "proj (mk n p x) (mk n p u) = Inr (mk n p (tangent_part n p x u))"
proof -
  have "mk n p (\<lambda>i b.
       (\<Sum>c<p. x i c * (0.5 * ((\<Sum>k<n. x k c * u k b) - (\<Sum>k<n. u k c * x k b))))
       + (\<Sum>k<n. ((if i = k then 1 else 0) - (\<Sum>c<p. x i c * x k c)) * u k b))
     = mk n p (tangent_part n p x u)"
  proof (intro mk_cong refl)
    fix i j assume i: "i < n" and "j < p"
    show "(\<Sum>c<p. x i c * (0.5 * ((\<Sum>k<n. x k c * u k j) - (\<Sum>k<n. u k c * x k j))))
       + (\<Sum>k<n. ((if i = k then 1 else 0) - (\<Sum>c<p. x i c * x k c)) * u k j)
       = tangent_part n p x u i j"
      unfolding complement_apply [OF i, where p = p and x = x and w = "\<lambda>k. u k j"]
      by (simp add: tangent_part_def skew_part_def gram_def)
  qed
  then show ?thesis by (simp only: proj_mk)
qed

lemma gram_tangent:
  fixes x :: "nat \<Rightarrow> nat \<Rightarrow> real"
  assumes orth: "\<And>a c. a < p \<Longrightarrow> c < p \<Longrightarrow> (\<Sum>i<n. x i a * x i c) = (if a = c then 1 else 0)"
    and a: "a < p"
  shows "gram n x (tangent_part n p x u) a b = skew_part n x u a b"
proof -
  have "gram n x (tangent_part n p x u) a b
        = (\<Sum>i<n. x i a * (\<Sum>c<p. x i c * skew_part n x u c b))
          + ((\<Sum>i<n. x i a * u i b) - (\<Sum>i<n. x i a * (\<Sum>c<p. x i c * gram n x u c b)))"
    by (simp add: gram_def tangent_part_def distrib_left right_diff_distrib sum.distrib sum_subtractf)
  also have "(\<Sum>i<n. x i a * (\<Sum>c<p. x i c * skew_part n x u c b)) = skew_part n x u a b"
    using orth a by (rule gram_contract)
  also have "(\<Sum>i<n. x i a * (\<Sum>c<p. x i c * gram n x u c b)) = gram n x u a b"
    using orth a by (rule gram_contract)
  finally show ?thesis by (simp add: gram_def)
qed

lemma tangent_part_fixed:
  fixes x :: "nat \<Rightarrow> nat \<Rightarrow> real"
  assumes orth: "\<And>a c. a < p \<Longrightarrow> c < p \<Longrightarrow> (\<Sum>i<n. x i a * x i c) = (if a = c then 1 else 0)"
    and b: "b < p"
  shows "tangent_part n p x (tangent_part n p x u) i b = tangent_part n p x u i b"
proof -
  let ?t = "tangent_part n p x u"
  have g: "gram n x ?t c b = skew_part n x u c b" if "c < p" for c
    using orth that by (rule gram_tangent)
  have g': "gram n ?t x c b = - skew_part n x u c b" if "c < p" for c
  proof -
    have "gram n ?t x c b = gram n x ?t b c" by (rule gram_commute)
    also have "\<dots> = skew_part n x u b c" using orth b by (rule gram_tangent)
    also have "\<dots> = - skew_part n x u c b" by (rule skew_part_anti)
    finally show ?thesis .
  qed
  have s: "skew_part n x ?t c b = skew_part n x u c b" if "c < p" for c
    using that by (simp add: skew_part_def [of n x ?t] g g')
  have "(\<Sum>c<p. x i c * skew_part n x ?t c b) = (\<Sum>c<p. x i c * skew_part n x u c b)"
    by (rule sum.cong) (simp_all add: s)
  moreover have "(\<Sum>c<p. x i c * gram n x ?t c b) = (\<Sum>c<p. x i c * skew_part n x u c b)"
    by (rule sum.cong) (simp_all add: g)
  ultimately show ?thesis
    by (simp add: tangent_part_def [of n p x ?t])
qed

lemma proj_tangent_mk:
  assumes orth: "np_dot (np_T (mk n p x)) (mk n p x) = Inr (np_eye p)"
  shows "and_then (np_dot (np_T (mk n p x)) (mk n p (tangent_part n p x u))) (\<lambda>XTT.
         and_then (np_dot (np_T (mk n p (tangent_part n p x u))) (mk n p x)) (\<lambda>TTX.
           elementwise (+) XTT TTX)) = Inr (np_zeros p p)"
proof -
  let ?t = "tangent_part n p x u"
  have o: "(\<Sum>i<n. x i a * x i c) = (if a = c then 1 else 0)" if "a < p" "c < p" for a c
    using orth that by (rule orthonormal_entries)
  have "gram n x ?t a b + gram n ?t x a b = 0" if "a < p" "b < p" for a b
  proof -
    have "gram n x ?t a b = skew_part n x u a b"
      using o that(1) by (rule gram_tangent)
    moreover have "gram n ?t x a b = gram n x ?t b a" by (rule gram_commute)
    moreover have "gram n x ?t b a = skew_part n x u b a"
      using o that(2) by (rule gram_tangent)
    ultimately show ?thesis using skew_part_anti [of n x u a b] by simp
  qed
  then have "mk p p (\<lambda>a b. gram n x ?t a b + gram n ?t x a b) = np_zeros p p"
    unfolding np_zeros_def by (intro mk_cong) simp_all
  then show ?thesis
    by (simp add: np_T_mk np_dot_mk elementwise_mk and_then_def gram_def)
qed

lemma proj_idempotent_mk:
  assumes orth: "np_dot (np_T (mk n p x)) (mk n p x) = Inr (np_eye p)"
  shows "proj (mk n p x) (mk n p (tangent_part n p x u)) = Inr (mk n p (tangent_part n p x u))"
proof -
  have o: "(\<Sum>i<n. x i a * x i c) = (if a = c then 1 else 0)" if "a < p" "c < p" for a c
    using orth that by (rule orthonormal_entries)
  have "mk n p (tangent_part n p x (tangent_part n p x u)) = mk n p (tangent_part n p x u)"
    by (intro mk_cong refl tangent_part_fixed o)
  then show ?thesis by (simp add: proj_mk_tangent)
qed


section \<open>Floats at integers\<close>

lemma round_even_of_int: "round_even (of_int m) = m"
  by (simp add: round_even_def)

lemma float64_of_int:
  assumes "\<bar>k\<bar> < 2 ^ 53"
  shows "float64 (of_int k) = of_int k"
proof (cases "k = 0")
  case True
  then show ?thesis by (simp add: float64_def)
next
  case False
  define e where "e = max \<lfloor>log 2 \<bar>real_of_int k\<bar>\<rfloor> (- 1022) - 52"
  have pos: "0 < nat \<bar>k\<bar>" using False by simp
  have "nat \<bar>k\<bar> < 2 ^ 53" using assms by (simp add: nat_less_iff)
  then have "log 2 (real (nat \<bar>k\<bar>)) < real 53"
    using pos by (rule log2_of_power_less)
  then have "log 2 \<bar>real_of_int k\<bar> < 53" by simp
  then have "\<lfloor>log 2 \<bar>real_of_int k\<bar>\<rfloor> < 53" by (simp add: floor_less_iff)
  then have e: "e \<le> 0" by (simp add: e_def)
  define j where "j = nat (- e)"
  have ej: "e = - int j" using e by (simp add: j_def)
  have pw: "2 powr real_of_int e = 1 / 2 ^ j"
    by (simp add: ej powr_minus powr_realpow divide_simps)
  have "real_of_int k / 2 powr real_of_int e = of_int (k * 2 ^ j)"
    by (simp add: pw)
  then have "round_even (real_of_int k / 2 powr real_of_int e) = k * 2 ^ j"
    by (simp only: round_even_of_int)
  then show ?thesis
    using False by (simp add: float64_def e_def [symmetric] Let_def pw)
qed

lemma float64_result_of_int:
  assumes "\<bar>k\<bar> < 2 ^ 53"
  shows "float64_result (of_int k) = Finite (of_int k)"
proof -
  have "\<bar>real_of_int k\<bar> < 2 ^ 53"
    using assms by (metis of_int_abs of_int_less_numeral_power_cancel_iff)
  also have "(2::real) ^ 53 \<le> 2 ^ 1024" by (rule power_increasing) simp_all
  finally show ?thesis
    by (simp add: float64_result_def float64_of_int [OF assms] Let_def)
qed

lemma py_float_of_int:
  assumes "\<bar>k\<bar> < 2 ^ 53"
  shows "py_float k = Inr (of_int k)"
proof -
  have "(2::int) ^ 53 \<le> 2 ^ 1024 - 2 ^ 970" by simp
  with assms have "\<not> 2 ^ 1024 - 2 ^ 970 \<le> \<bar>k\<bar>" by linarith
  then show ?thesis by (simp add: py_float_def float64_of_int [OF assms])
qed

lemma abs_le_consecutive: "\<bar>p\<bar> \<le> p * (p + 1) + 1" for p :: int
proof (cases "0 \<le> p")
  case True
  then have "p * 1 \<le> p * (p + 1)" by (intro mult_left_mono) simp_all
  with True show ?thesis by simp
next
  case False
  then have "(- p - 1) * 1 \<le> (- p - 1) * (- p)" by (intro mult_left_mono) simp_all
  with False show ?thesis by (simp add: algebra_simps)
qed

lemma StiefelManifold_init_in_range:
  assumes np: "\<bar>n * p\<bar> < 2 ^ 52" and pp: "\<bar>p * (p + 1)\<bar> < 2 ^ 53"
  shows "StiefelManifold_init n p =
     Inr \<lparr> self_n = n, self_p = p,
           self_dim = Finite (of_int n * of_int p - 0.5 * of_int p * (of_int p + 1)),
           self_typical_distance =
             (if p < 0 then NaN else Finite (float64 (sqrt (of_int p)))) \<rparr>"
proof -
  define h where "h = p * (p + 1) div 2"
  have ev: "even (p * (p + 1))" by simp
  then have h2: "p * (p + 1) = 2 * h" by (simp add: h_def)
  have hb: "\<bar>h\<bar> < 2 ^ 52" using pp unfolding h2 by simp
  then have hb': "\<bar>h\<bar> < 2 ^ 53" by simp
  have b: "py_float (p * (p + 1)) = Inr (of_int (p * (p + 1)))"
    using pp by (rule py_float_of_int)
  have "0.5 * real_of_int (p * (p + 1)) = of_int h" unfolding h2 by simp
  then have c: "float64 (0.5 * real_of_int (p * (p + 1))) = of_int h"
    using float64_of_int [OF hb'] by simp
  have a: "py_float (n * p) = Inr (of_int (n * p))"
    using np by (intro py_float_of_int) simp
  have hh: "real_of_int h = 0.5 * of_int p * (of_int p + 1)"
  proof -
    have "real_of_int (2 * h) = of_int p * (of_int p + 1)" unfolding h2 [symmetric] by simp
    then show ?thesis by simp
  qed
  have "\<bar>n * p - h\<bar> < 2 ^ 53" using np hb by simp
  then have "float64_result (of_int (n * p - h)) = Finite (of_int (n * p - h))"
    by (rule float64_result_of_int)
  then have d: "float64_result (real_of_int (n * p) - real_of_int h)
                = Finite (of_int n * of_int p - 0.5 * of_int p * (of_int p + 1))"
    by (simp add: hh)
  have pr: "\<bar>p\<bar> \<le> 2 ^ 53"
    using abs_le_consecutive [of p] pp by simp
  have s: "np_sqrt p = Inr (if p < 0 then NaN else Finite (float64 (sqrt (of_int p))))"
  proof (cases "p < 0")
    case True
    with pr show ?thesis by (simp add: np_sqrt_def)
  next
    case False
    then have "p * 1 \<le> p * (p + 1)" by (intro mult_left_mono) simp_all
    with pp False have "\<bar>p\<bar> < 2 ^ 53" by simp
    then have "float64 (of_int p) = of_int p" by (rule float64_of_int)
    with False pr show ?thesis by (simp add: np_sqrt_def)
  qed
  show ?thesis
    unfolding StiefelManifold_init_def
    by (simp only: b a s c d and_then_def sum.case Let_def)
qed

lemma floor_log2_nat:
  fixes m :: nat
  assumes "2 ^ k \<le> m" and "m < 2 ^ Suc k"
  shows "\<lfloor>log 2 (real m)\<rfloor> = int k"
proof (rule floor_unique)
  show "of_int (int k) \<le> log 2 (real m)"
    using le_log2_of_power [OF assms(1)] by simp
  have "0 < m" using assms(1) by (metis gr0I not_less power_not_zero zero_neq_numeral le_zero_eq)
  then have "log 2 (real m) < real (Suc k)"
    using assms(2) by (intro log2_of_power_less)
  then show "log 2 (real m) < of_int (int k) + 1" by simp
qed

lemma float64_tie: "float64 (2 ^ 53 + 1) = 2 ^ 53"
proof -
  have "\<lfloor>log 2 (real (2 ^ 53 + 1))\<rfloor> = int 53"
    by (rule floor_log2_nat) simp_all
  then have l: "\<lfloor>log 2 \<bar>2 ^ 53 + 1 :: real\<bar>\<rfloor> = 53" by simp
  have r: "round_even (((2::real) ^ 53 + 1) / 2) = 2 ^ 52"
  proof -
    have "((2::real) ^ 53 + 1) / 2 = of_int (2 ^ 52) + 1 / 2" by simp
    moreover have "round_even (of_int (2 ^ 52) + 1 / 2) = 2 ^ 52"
      unfolding round_even_def by (simp add: Let_def)
    ultimately show ?thesis by simp
  qed
  have "(2::real) ^ 53 + 1 \<noteq> 0" by simp
  then show ?thesis
    unfolding float64_def l by (simp add: Let_def r del: power_numeral) simp
qed

section \<open>Properties\<close>

subsection \<open>Construction\<close>


text \<open>
  Two more inputs outside the range of exact arithmetic.  At \<open>p = 2\<^sup>5\<^sup>1\<^sup>2\<close> the integer
  \<open>p\<cdot>(p+1)\<close> is too large for a float and the constructor raises \<^verbatim>\<open>OverflowError\<close>.  At
  \<open>n = 2\<^sup>5\<^sup>3 + 1\<close>, \<open>p = 1\<close> the product \<open>n\<cdot>p\<close> is rounded to \<open>2\<^sup>5\<^sup>3\<close> and the constructor
  stores \<open>dim = 2\<^sup>5\<^sup>3 - 1\<close>, where \<open>n\<cdot>p - 0.5\<cdot>p\<cdot>(p+1) = 2\<^sup>5\<^sup>3\<close>.
\<close>

lemma StiefelManifold_init_overflow:
  "StiefelManifold_init 3 (2 ^ 512) = Inl OverflowError"
  by (simp add: StiefelManifold_init_def py_float_def np_sqrt_def and_then_def Let_def)

lemma StiefelManifold_init_rounds:
  "StiefelManifold_init (2 ^ 53 + 1) 1 =
     Inr \<lparr> self_n = 2 ^ 53 + 1, self_p = 1, self_dim = Finite (2 ^ 53 - 1),
           self_typical_distance = Finite 1 \<rparr>"
proof -
  have a: "py_float (2 ^ 53 + 1) = Inr (2 ^ 53)"
    using float64_tie by (simp add: py_float_def)
  have b: "py_float (1 * (1 + 1)) = Inr 2"
    using py_float_of_int [of 2] by simp
  have c: "float64 (0.5 * 2) = 1"
    using float64_of_int [of 1] by simp
  have d: "float64_result (2 ^ 53 - 1) = Finite (2 ^ 53 - 1)"
    using float64_result_of_int [of "2 ^ 53 - 1"] by simp
  have s: "np_sqrt 1 = Inr (Finite 1)"
    using float64_of_int [of 1] by (simp add: np_sqrt_def)
  show ?thesis
    unfolding StiefelManifold_init_def
    by (simp only: mult_1_right a b c d s and_then_def sum.case Let_def)
qed



subsection \<open>Sign correction\<close>

text \<open>
  Claim C6.  For every diagonal entry \<open>r = R\<^sub>i\<^sub>i\<close> of the factor \<open>R\<close>, the corrected sign
  \<open>sign (sign r + 0.5)\<close> at position \<open>i\<close> is \<open>+1\<close> when \<open>r = 0\<close> (so neither \<open>-1\<close> nor
  \<open>0\<close>), and otherwise it is the sign of \<open>r\<close>: \<open>+1\<close> for positive and \<open>-1\<close> for negative
  \<open>r\<close>.  There is one corrected sign for each diagonal entry.
\<close>

theorem sign_correction_entries:
  "length (sign_correction (np_diagonal R)) = min (nrows R) (ncols R)
   \<and> (\<forall>i < min (nrows R) (ncols R).
        (entry R i i = 0 \<longrightarrow> sign_correction (np_diagonal R) ! i = 1)
        \<and> (entry R i i \<noteq> 0 \<longrightarrow> sign_correction (np_diagonal R) ! i = sign (entry R i i))
        \<and> (0 < entry R i i \<longrightarrow> sign_correction (np_diagonal R) ! i = 1)
        \<and> (entry R i i < 0 \<longrightarrow> sign_correction (np_diagonal R) ! i = - 1))"
  by (simp add: sign_correction_def np_diagonal_def sign_def)

theorem sign_correction_entries_witness:
  "entry (array [[0, 5], [0, - 3]]) 0 0 = 0
   \<and> entry (array [[0, 5], [0, - 3]]) 1 1 < 0
   \<and> sign_correction (np_diagonal (array [[0, 5], [0, - 3]])) = [1, - 1]"
proof -
  let ?R = "array [[0, 5], [0, - 3]]"
  have m: "min (nrows ?R) (ncols ?R) = 2"
    by (simp add: array_def)
  have e: "entry ?R 0 0 = 0" "entry ?R 1 1 < 0"
    by (simp_all add: array_def entry_def)
  have "\<forall>i < 2. sign_correction (np_diagonal ?R) ! i = [1, - 1] ! i"
    using sign_correction_entries [of ?R] e unfolding m
    by (simp add: All_less_Suc numeral_2_eq_2)
  moreover have "length (sign_correction (np_diagonal ?R)) = 2"
    using sign_correction_entries [of ?R] unfolding m by simp
  ultimately have "sign_correction (np_diagonal ?R) = [1, - 1]"
    by (intro nth_equalityI) simp_all
  with e show ?thesis by simp
qed

subsection \<open>Tangent projection\<close>

text \<open>
  Claim C2.  Let \<open>X\<close> and \<open>U\<close> be well-formed arrays of the same shape with
  \<open>X\<^sup>T X = I\<close> exactly.  Then \<^verbatim>\<open>proj(X,U)\<close> returns an array \<open>T\<close> of that shape, and
  \<open>X\<^sup>T T + T\<^sup>T X\<close>, computed with the operations of the code, is the zero matrix.
\<close>

theorem proj_tangent_skew:
  assumes "wf X" and "wf U"
    and "nrows U = nrows X" and "ncols U = ncols X"
    and "np_dot (np_T X) X = Inr (np_eye (ncols X))"
  shows "\<exists>T. proj X U = Inr T \<and> nrows T = nrows X \<and> ncols T = ncols X
           \<and> and_then (np_dot (np_T X) T) (\<lambda>XTT.
              and_then (np_dot (np_T T) X) (\<lambda>TTX.
                elementwise (+) XTT TTX)) = Inr (np_zeros (ncols X) (ncols X))"
proof -
  define n p x u where "n = nrows X" and "p = ncols X" and "x = entry X" and "u = entry U"
  have X: "X = mk n p x"
    using mk_entry [OF assms(1)] by (simp add: n_def p_def x_def)
  have U: "U = mk n p u"
    using mk_entry [OF assms(2)] assms(3,4) by (simp add: n_def p_def u_def)
  have orth: "np_dot (np_T (mk n p x)) (mk n p x) = Inr (np_eye p)"
    using assms(5) X by simp
  have "proj X U = Inr (mk n p (tangent_part n p x u))"
    unfolding X U by (rule proj_mk_tangent)
  moreover have "and_then (np_dot (np_T X) (mk n p (tangent_part n p x u))) (\<lambda>XTT.
                 and_then (np_dot (np_T (mk n p (tangent_part n p x u))) X) (\<lambda>TTX.
                   elementwise (+) XTT TTX)) = Inr (np_zeros p p)"
    unfolding X using orth by (rule proj_tangent_mk)
  ultimately show ?thesis
    using X by (intro exI [of _ "mk n p (tangent_part n p x u)"]) simp
qed

theorem proj_tangent_skew_witness:
  "wf X42 \<and> wf U42 \<and> nrows U42 = nrows X42 \<and> ncols U42 = ncols X42
   \<and> np_dot (np_T X42) X42 = Inr (np_eye (ncols X42))
   \<and> (\<exists>T. proj X42 U42 = Inr T
         \<and> and_then (np_dot (np_T X42) T) (\<lambda>XTT.
            and_then (np_dot (np_T T) X42) (\<lambda>TTX.
              elementwise (+) XTT TTX)) = Inr (np_zeros 2 2))"
proof -
  have h1: "wf X42" and h2: "wf U42"
    by (simp_all add: wf_def X42_def U42_def array_def)
  have h3: "nrows U42 = nrows X42" and h4: "ncols U42 = ncols X42"
    by (simp_all add: X42_def U42_def array_def)
  have h5: "np_dot (np_T X42) X42 = Inr (np_eye (ncols X42))"
    by (simp add: X42_def array_def np_dot_def np_T_def np_eye_def mk_def entry_def upt_rec)
  have c: "ncols X42 = 2"
    by (simp add: X42_def array_def)
  show ?thesis
    using h1 h2 h3 h4 h5 proj_tangent_skew [OF h1 h2 h3 h4 h5] unfolding c by blast
qed

text \<open>
  Claim C10.  Under the same hypotheses the projection is idempotent:
  \<^verbatim>\<open>proj(X, proj(X,U))\<close> returns the array that \<^verbatim>\<open>proj(X,U)\<close> returns.
\<close>

theorem proj_idempotent:
  assumes "wf X" and "wf U"
    and "nrows U = nrows X" and "ncols U = ncols X"
    and "np_dot (np_T X) X = Inr (np_eye (ncols X))"
  shows "\<exists>T. proj X U = Inr T \<and> proj X T = Inr T"
proof -
  define n p x u where "n = nrows X" and "p = ncols X" and "x = entry X" and "u = entry U"
  have X: "X = mk n p x"
    using mk_entry [OF assms(1)] by (simp add: n_def p_def x_def)
  have U: "U = mk n p u"
    using mk_entry [OF assms(2)] assms(3,4) by (simp add: n_def p_def u_def)
  have orth: "np_dot (np_T (mk n p x)) (mk n p x) = Inr (np_eye p)"
    using assms(5) X by simp
  have "proj X U = Inr (mk n p (tangent_part n p x u))"
    unfolding X U by (rule proj_mk_tangent)
  moreover have "proj X (mk n p (tangent_part n p x u)) = Inr (mk n p (tangent_part n p x u))"
    unfolding X using orth by (rule proj_idempotent_mk)
  ultimately show ?thesis by blast
qed

theorem proj_idempotent_witness:
  "wf X42 \<and> wf U42 \<and> nrows U42 = nrows X42 \<and> ncols U42 = ncols X42
   \<and> np_dot (np_T X42) X42 = Inr (np_eye (ncols X42))
   \<and> (\<exists>T. proj X42 U42 = Inr T \<and> proj X42 T = Inr T)"
proof -
  have h1: "wf X42" and h2: "wf U42"
    by (simp_all add: wf_def X42_def U42_def array_def)
  have h3: "nrows U42 = nrows X42" and h4: "ncols U42 = ncols X42"
    by (simp_all add: X42_def U42_def array_def)
  have h5: "np_dot (np_T X42) X42 = Inr (np_eye (ncols X42))"
    by (simp add: X42_def array_def np_dot_def np_T_def np_eye_def mk_def entry_def upt_rec)
  show ?thesis
    using h1 h2 h3 h4 h5 proj_idempotent [OF h1 h2 h3 h4 h5] by blast
qed

subsection \<open>Retraction\<close>

text \<open>
  The last line of \<^verbatim>\<open>retraction\<close> multiplies the \<open>n\<close> by \<open>p\<close> factor \<open>Q\<close> and the \<open>p\<close> by
  \<open>p\<close> diagonal array entry by entry.  For \<open>1 < p < n\<close> the two shapes cannot be
  broadcast, whatever the entries are.
\<close>

lemma retraction_broadcast_error:
  assumes "nrows X = n" and "ncols X = p" and "nrows U = n" and "ncols U = p"
    and "1 < p" and "p < n"
    and "\<And>Y. nrows Y = n \<Longrightarrow> ncols Y = p \<Longrightarrow>
           \<exists>Q R. qr Y = Inr (Q, R) \<and> nrows Q = n \<and> ncols Q = p \<and> nrows R = p \<and> ncols R = p"
  shows "retraction qr X U t = Inl ValueError"
proof -
  obtain Y where Y: "elementwise (+) X (scalar_times t U) = Inr Y" "nrows Y = n" "ncols Y = p"
    using assms(1-4) by (simp add: elementwise_def broadcast_dim_def scalar_times_def)
  obtain Q R where QR: "qr Y = Inr (Q, R)" "nrows Q = n" "ncols Q = p" "nrows R = p" "ncols R = p"
    using assms(7) [OF Y(2,3)] by blast
  have "length (sign_correction (np_diagonal R)) = p"
    using QR(4,5) by (simp add: sign_correction_def np_diagonal_def)
  then have "elementwise (*) Q (np_diag (sign_correction (np_diagonal R))) = Inl ValueError"
    using QR(2,3) assms(5,6) by (simp add: elementwise_def broadcast_dim_def np_diag_def)
  then show ?thesis
    by (simp add: retraction_def Y(1) QR(1) and_then_def)
qed

text \<open>
  Claim C1 (retraction lands on the manifold) at the point \<open>[[1,0],[0,1],[0,0],[0,0]]\<close>
  of the 4 by 2 manifold, with the zero direction and \<open>t = 1\<close>: the factors returned for
  \<open>Y = X\<close> multiply to \<open>Y\<close> and \<open>Q\<close> has orthonormal columns, \<^verbatim>\<open>retraction\<close> raises \<^verbatim>\<open>ValueError\<close>, and so does the
  membership test applied to its result.
\<close>

theorem retraction_4x2_raises:
  "np_dot Q42 R42 = elementwise (+) X42 (scalar_times 1 (np_zeros 4 2))
   \<and> np_dot (np_T Q42) Q42 = Inr (np_eye 2)
   \<and> retraction (qr_returning Q42 R42) X42 (np_zeros 4 2) 1 = Inl ValueError
   \<and> and_then (StiefelManifold_init 4 2) (\<lambda>self.
        and_then (retraction (qr_returning Q42 R42) X42 (np_zeros 4 2) 1)
          (point_on_manifold self)) = Inl ValueError"
  using StiefelManifold_init_in_range [of 4 2]
  by (simp add: retraction_def qr_returning_def X42_def Q42_def R42_def array_def np_zeros_def
        np_dot_def scalar_times_def elementwise_def broadcast_dim_def stretch_def np_diag_def
        np_diagonal_def sign_correction_def mk_def entry_def and_then_def upt_rec np_T_def
        np_eye_def)

text \<open>
  Claim C3 (retraction with \<open>t = 0\<close> returns \<open>X\<close>) at the 2 by 2 orthonormal matrix
  \<open>[[0,1],[1,0]]\<close>: the factors multiply to \<open>Y = X + 0\<cdot>U = X\<close>, \<open>Q\<close> is orthonormal, and \<^verbatim>\<open>retraction\<close> returns
  the zero matrix, since the entry by entry product with a diagonal array keeps only
  the diagonal of \<open>Q\<close>.
\<close>

theorem retraction_2x2_at_zero:
  "np_dot Q22 R22 = Inr X22
   \<and> np_dot (np_T Q22) Q22 = Inr (np_eye 2)
   \<and> elementwise (+) X22 (scalar_times 0 U22) = Inr X22
   \<and> retraction (qr_returning Q22 R22) X22 U22 0 = Inr (array [[0, 0], [0, 0]])
   \<and> array [[0, 0], [0, 0]] \<noteq> X22"
  by (simp add: retraction_def qr_returning_def X22_def U22_def Q22_def R22_def array_def
        np_dot_def scalar_times_def elementwise_def broadcast_dim_def stretch_def np_diag_def
        np_diagonal_def sign_correction_def sign_def mk_def entry_def and_then_def upt_rec
        np_T_def np_eye_def)

subsection \<open>Membership test\<close>

text \<open>
  Claim C5 (the membership test is true exactly for arrays of shape \<open>(n,p)\<close> with
  \<open>X\<^sup>T X\<close> close to the identity).  In the code an array of the right shape makes
  \<^verbatim>\<open>np.eye(p)\<close> look up the name \<^verbatim>\<open>p\<close>, which the module does not bind: the test raises
  \<^verbatim>\<open>NameError\<close>, in particular at \<open>n = 4\<close>, \<open>p = 2\<close> and \<open>X = [[1,0],[0,1],[0,0],[0,0]]\<close>.
  For any other shape it returns false, so it returns true for no input.
\<close>

theorem point_on_manifold_raises:
  "and_then (StiefelManifold_init 4 2) (\<lambda>self. point_on_manifold self X42)
     = Inl (NameError ''p'')
   \<and> point_on_manifold self X =
       (if int (nrows X) = self_n self \<and> int (ncols X) = self_p self
        then Inl (NameError ''p'') else Inr False)"
  using StiefelManifold_init_in_range [of 4 2]
  by (simp add: point_on_manifold_def X42_def array_def
        np_dot_def np_T_def load_global_def module_globals_def and_then_def)

subsection \<open>Inner product and norm\<close>

text \<open>
  Claim C7 (\<^verbatim>\<open>norm(d)\<close> is the square root of \<^verbatim>\<open>inner(d,d)\<close>, the flattened dot
  product).  In the code \<^verbatim>\<open>norm\<close> raises \<^verbatim>\<open>AttributeError\<close> for every \<open>d\<close>;
  \<^verbatim>\<open>inner(d,d)\<close> raises \<^verbatim>\<open>ValueError\<close> for the 4 by 2 array \<open>X42\<close>, and for the square
  array \<open>[[1,2],[3,4]]\<close> it returns the matrix product \<open>[[7,10],[15,22]]\<close>, where the
  flattened dot product is the number 30.
\<close>

theorem norm_and_inner_at_matrices:
  "norm_stiefel d = Inl (AttributeError ''norm'')
   \<and> inner X42 X42 = Inl ValueError
   \<and> inner U22 U22 = Inr (array [[7, 10], [15, 22]])"
  by (simp add: norm_stiefel_def inner_def np_dot_def X42_def U22_def array_def mk_def
        entry_def upt_rec)

subsection \<open>Abstract interface\<close>

text \<open>
  Claim C9, as stated, includes \<^verbatim>\<open>random_vec\<close> on the placeholder among the calls that
  raise \<^verbatim>\<open>NotImplementedError\<close>.  That call raises \<^verbatim>\<open>AttributeError\<close>: the constructor
  of the placeholder never sets \<^verbatim>\<open>dim\<close>, and \<^verbatim>\<open>self.dim\<close> is read before \<^verbatim>\<open>proj\<close> is
  called.
\<close>

theorem grassmann_random_vec_counterexample:
  "Manifold_random_vec zero_draws GrassmannManifold_init \<noteq> Inl NotImplementedError"
  by (simp add: Manifold_random_vec_def getattr_def GrassmannManifold_init_def
        Manifold_methods_def and_then_def)

text \<open>
  Claim C9, amended.  \<^verbatim>\<open>proj\<close> and \<^verbatim>\<open>point_on_manifold\<close> raise \<^verbatim>\<open>NotImplementedError\<close>
  on every instance of the base class and of the placeholder, whatever the argument;
  \<^verbatim>\<open>random_vec\<close> on the placeholder raises \<^verbatim>\<open>AttributeError\<close> for the attribute
  \<^verbatim>\<open>dim\<close>, whatever the random draw.
\<close>

theorem abstract_interface_raises:
  "Manifold_proj Manifold_init X = Inl NotImplementedError
   \<and> Manifold_point_on_manifold Manifold_init X = Inl NotImplementedError
   \<and> Manifold_proj GrassmannManifold_init X = Inl NotImplementedError
   \<and> Manifold_point_on_manifold GrassmannManifold_init X = Inl NotImplementedError
   \<and> Manifold_random_vec sample GrassmannManifold_init = Inl (AttributeError ''dim'')"
  by (simp add: Manifold_proj_def Manifold_point_on_manifold_def Manifold_random_vec_def
        getattr_def GrassmannManifold_init_def Manifold_methods_def and_then_def)

end
